theory Spec2Isabelle
  imports Complex_Main "HOL-Library.Word"
begin

section \<open>Data model\<close>

text \<open>
  The repository holds three HTTP gateways in front of a cloud text-to-speech and a cloud
  speech-to-text service: \<^verbatim>\<open>app.py\<close> (FastAPI, file mode, fallback to long-running
  recognition), \<^verbatim>\<open>main.py\<close> (FastAPI, streaming mode, no fallback) and \<^verbatim>\<open>test.py\<close>
  (Flask, file mode with a fixed file name, three long-running attempts).

  Audio is a Python \<^verbatim>\<open>bytes\<close> value, text a Python \<^verbatim>\<open>str\<close>.
\<close>

type_synonym byte = "8 word"
type_synonym bytes = "byte list"

text \<open>
  The recognition response of the vendor SDK: result segments in vendor order, each with
  its ranked alternatives, each alternative with its transcript.
\<close>

record alternative =
  transcript :: string

record speech_result =
  alternatives :: "alternative list"

record recognize_response =
  results :: "speech_result list"

text \<open>
  Exceptions that the handlers can meet. A failure of a vendor SDK call is an exception
  whose \<^verbatim>\<open>str(e)\<close> is the given message. \<open>HTTPException\<close> is FastAPI's exception
  (a subclass of Python's \<^verbatim>\<open>Exception\<close>) with status code and detail. \<open>IndexError\<close>
  is what \<^verbatim>\<open>xs[0]\<close> raises on an empty sequence, \<open>UnboundLocalError\<close> what reading
  a local variable raises that was never assigned.
\<close>

datatype exn =
    VendorError string
  | HTTPException nat string
  | IndexError
  | UnboundLocalError

text \<open>The calls issued to the vendor, as they are logged in the world.\<close>

datatype vendor_call =
    SynthesizeSpeech string
  | Recognize bytes
  | LongRunningRecognize bytes

text \<open>
  A long-running operation, as returned by \<^verbatim>\<open>long_running_recognize\<close>: waiting for its
  result (\<^verbatim>\<open>operation.result(timeout=90)\<close>) either raises or returns the response.
\<close>

type_synonym operation = "string + recognize_response"

text \<open>
  The environment of a handler: everything the code does not determine. Each vendor
  operation answers with an error message (the call raises) or with its value; the answer
  may depend on how many vendor calls have been issued before (the first argument), so
  that a repeated call can fail once and succeed later. The voice, encoding and
  recognition configurations are constants of each variant and are not arguments.
  \<open>tts_client_ctor\<close> and \<open>stt_client_ctor\<close> are the client constructors that
  \<^verbatim>\<open>test.py\<close> runs inside its handlers (\<open>Some m\<close>: the constructor raises with message
  \<open>m\<close>). \<open>time_time\<close> gives the successive readings of \<^verbatim>\<open>time.time()\<close>; the readings
  are taken as real numbers. \<open>str_library\<close> is \<^verbatim>\<open>str(e)\<close> for the exceptions whose text
  is fixed by a library and not by this repository.
\<close>

record env =
  synthesize_speech :: "nat \<Rightarrow> string \<Rightarrow> string + bytes"
  recognize :: "nat \<Rightarrow> bytes \<Rightarrow> string + recognize_response"
  long_running_recognize :: "nat \<Rightarrow> bytes \<Rightarrow> string + operation"
  tts_client_ctor :: "string option"
  stt_client_ctor :: "string option"
  time_time :: "nat \<Rightarrow> real"
  str_library :: "exn \<Rightarrow> string"

text \<open>
  The world a handler runs in and changes: the log of vendor calls issued so far, the
  files on disk, and the number of clock readings taken.
\<close>

record world =
  vendor_calls :: "vendor_call list"
  files :: "string \<rightharpoonup> bytes"
  clock_reads :: nat

text \<open>
  Response bodies. \<open>AudioPathBody p t\<close> is \<^verbatim>\<open>{"audio_path": p, "text": t}\<close>,
  \<open>StreamingResponse chunks media_type headers\<close> is FastAPI's streaming response over the
  chunks its generator yields, \<open>TranscriptTimeBody t s\<close> is
  \<^verbatim>\<open>{"transcript": t, "processing_time_seconds": s}\<close>, \<open>TranscriptBody t\<close> is
  \<^verbatim>\<open>{"transcript": t}\<close> and \<open>ErrorBody m\<close> is \<^verbatim>\<open>{"error": m}\<close>.

  A FastAPI handler returns a body (status 200) or raises; FastAPI answers a raised
  \<open>HTTPException c d\<close> with status \<open>c\<close> and \<^verbatim>\<open>{"detail": d}\<close>. So the outcome of a
  FastAPI handler is an \<open>exn + body\<close>. A Flask view of \<^verbatim>\<open>test.py\<close> returns a body
  and a status code.
\<close>

datatype body =
    AudioPathBody string string
  | StreamingResponse "bytes list" string "(string \<times> string) list"
  | TranscriptTimeBody string real
  | TranscriptBody string
  | ErrorBody string

text \<open>
  A request to a Flask view of \<^verbatim>\<open>test.py\<close>: its method and, for a POST, the form field
  \<^verbatim>\<open>text_input\<close> when the form has one.
\<close>

datatype flask_request = Get | Post "string option"

section \<open>Python primitives\<close>

text \<open>\<^verbatim>\<open>str(n)\<close> for an integer: decimal digits, a minus sign for a negative number.\<close>

definition digit_char :: "nat \<Rightarrow> char" where
  "digit_char d = char_of (48 + d)"

fun str_nat :: "nat \<Rightarrow> string" where
  "str_nat n = (if n < 10 then [digit_char n] else str_nat (n div 10) @ [digit_char (n mod 10)])"

declare str_nat.simps [simp del]

definition str_int :: "int \<Rightarrow> string" where
  "str_int i = (if i < 0 then CHR ''-'' # str_nat (nat (- i)) else str_nat (nat i))"

text \<open>\<^verbatim>\<open>int(x)\<close> for a float: truncation towards zero.\<close>

definition py_int :: "real \<Rightarrow> int" where
  "py_int x = (if 0 \<le> x then \<lfloor>x\<rfloor> else \<lceil>x\<rceil>)"

text \<open>
  \<^verbatim>\<open>round(x, 2)\<close>: the nearest multiple of one hundredth, a tie going to the even one.
  The binary representation error of Python's floats is not modelled.
\<close>

definition py_round2 :: "real \<Rightarrow> real" where
  "py_round2 x =
     (let y = x * 100; f = \<lfloor>y\<rfloor>; d = y - of_int f
      in of_int (if d < 1 / 2 then f else if 1 / 2 < d then f + 1
                 else if even f then f else f + 1) / 100)"

text \<open>\<^verbatim>\<open>xs[0]\<close>.\<close>

definition index0 :: "'a list \<Rightarrow> exn + 'a" where
  "index0 xs = (case xs of [] \<Rightarrow> Inl IndexError | x # _ \<Rightarrow> Inr x)"

text \<open>\<^verbatim>\<open>str(e)\<close> of a caught exception.\<close>

definition str_exn :: "env \<Rightarrow> exn \<Rightarrow> string" where
  "str_exn e ex = (case ex of VendorError m \<Rightarrow> m | _ \<Rightarrow> str_library e ex)"

section \<open>Effects\<close>

definition read_clock :: "env \<Rightarrow> world \<Rightarrow> real \<times> world" where
  "read_clock e w = (time_time e (clock_reads w), w\<lparr>clock_reads := Suc (clock_reads w)\<rparr>)"

text \<open>
  \<^verbatim>\<open>with open(name, "wb") as out: out.write(content)\<close>. The write is taken to succeed:
  the directory \<^verbatim>\<open>static\<close> is created before.
\<close>

definition write_file :: "string \<Rightarrow> bytes \<Rightarrow> world \<Rightarrow> world" where
  "write_file name content w = w\<lparr>files := (files w)(name \<mapsto> content)\<rparr>"

definition call_synthesize_speech :: "env \<Rightarrow> string \<Rightarrow> world \<Rightarrow> (exn + bytes) \<times> world" where
  "call_synthesize_speech e text_in w =
     (case synthesize_speech e (length (vendor_calls w)) text_in of
        Inl m \<Rightarrow> Inl (VendorError m)
      | Inr audio_content \<Rightarrow> Inr audio_content,
      w\<lparr>vendor_calls := vendor_calls w @ [SynthesizeSpeech text_in]\<rparr>)"

definition call_recognize ::
  "env \<Rightarrow> bytes \<Rightarrow> world \<Rightarrow> (exn + recognize_response) \<times> world" where
  "call_recognize e audio w =
     (case recognize e (length (vendor_calls w)) audio of
        Inl m \<Rightarrow> Inl (VendorError m)
      | Inr response \<Rightarrow> Inr response,
      w\<lparr>vendor_calls := vendor_calls w @ [Recognize audio]\<rparr>)"

text \<open>
  \<^verbatim>\<open>operation = client.long_running_recognize(...); response = operation.result(timeout=90)\<close>:
  one call is issued; it fails when the call raises or when waiting for the result raises.
\<close>

definition long_running_outcome :: "env \<Rightarrow> nat \<Rightarrow> bytes \<Rightarrow> string + recognize_response" where
  "long_running_outcome e k audio =
     (case long_running_recognize e k audio of
        Inl m \<Rightarrow> Inl m
      | Inr operation \<Rightarrow> operation)"

definition call_long_running_recognize ::
  "env \<Rightarrow> bytes \<Rightarrow> world \<Rightarrow> (exn + recognize_response) \<times> world" where
  "call_long_running_recognize e audio w =
     (case long_running_outcome e (length (vendor_calls w)) audio of
        Inl m \<Rightarrow> Inl (VendorError m)
      | Inr response \<Rightarrow> Inr response,
      w\<lparr>vendor_calls := vendor_calls w @ [LongRunningRecognize audio]\<rparr>)"

section \<open>Transcript extraction\<close>

text \<open>
  \<^verbatim>\<open>''.join([result.alternatives[0].transcript for result in response.results
           if result.alternatives])\<close>, the same expression in the three files.
  \<open>top_transcripts\<close> is the list comprehension, evaluated from left to right.
\<close>

fun top_transcripts :: "speech_result list \<Rightarrow> exn + string list" where
  "top_transcripts [] = Inr []"
| "top_transcripts (result # rest) =
     (if alternatives result \<noteq> [] then
        (case index0 (alternatives result) of
           Inl ex \<Rightarrow> Inl ex
         | Inr alt \<Rightarrow>
             (case top_transcripts rest of
                Inl ex \<Rightarrow> Inl ex
              | Inr ts \<Rightarrow> Inr (transcript alt # ts)))
      else top_transcripts rest)"

definition extract_transcript :: "recognize_response \<Rightarrow> exn + string" where
  "extract_transcript response =
     (case top_transcripts (results response) of
        Inl ex \<Rightarrow> Inl ex
      | Inr ts \<Rightarrow> Inr (concat ts))"

section \<open>Streaming helper of main.py\<close>

text \<open>
  \<^verbatim>\<open>audio_stream_generator\<close>: \<^verbatim>\<open>buffer.read(4096)\<close> returns the next at most 4096
  bytes and moves the position past them; the loop stops at the first empty read. The
  list is the sequence of the chunks the generator yields.
\<close>

function audio_stream_generator :: "bytes \<Rightarrow> bytes list" where
  "audio_stream_generator buffer =
     (if take 4096 buffer = [] then []
      else take 4096 buffer # audio_stream_generator (drop 4096 buffer))"
  by pat_completeness auto
termination
  by (relation "measure length") (auto simp: take_eq_Nil)

declare audio_stream_generator.simps [simp del]

section \<open>app.py\<close>

text \<open>The body of the \<^verbatim>\<open>try\<close> of \<^verbatim>\<open>text_to_speech\<close>, then the handler with its
  \<^verbatim>\<open>except Exception\<close>.\<close>

definition app_text_to_speech_try :: "env \<Rightarrow> string \<Rightarrow> world \<Rightarrow> (exn + body) \<times> world" where
  "app_text_to_speech_try e text_in w =
     (if text_in = [] then (Inl (HTTPException 400 ''Please provide text to convert''), w)
      else
        (case call_synthesize_speech e text_in w of
           (Inl ex, w1) \<Rightarrow> (Inl ex, w1)
         | (Inr audio_content, w1) \<Rightarrow>
             (case read_clock e w1 of
                (now, w2) \<Rightarrow>
                  (let timestamp = py_int now;
                       audio_filename = ''static/output_'' @ str_int timestamp @ ''.wav''
                   in (Inr (AudioPathBody (''/static/output_'' @ str_int timestamp @ ''.wav'')
                              text_in),
                       write_file audio_filename audio_content w2)))))"

definition app_text_to_speech :: "env \<Rightarrow> string \<Rightarrow> world \<Rightarrow> (exn + body) \<times> world" where
  "app_text_to_speech e text_in w =
     (case app_text_to_speech_try e text_in w of
        (Inl ex, w') \<Rightarrow> (Inl (HTTPException 500 (str_exn e ex)), w')
      | (Inr b, w') \<Rightarrow> (Inr b, w'))"

text \<open>The inner \<^verbatim>\<open>try\<close> of \<^verbatim>\<open>speech_to_text\<close> (synchronous recognition and
  extraction) and its \<^verbatim>\<open>except\<close> branch (long-running recognition and extraction).\<close>

definition sync_attempt :: "env \<Rightarrow> bytes \<Rightarrow> world \<Rightarrow> (exn + string) \<times> world" where
  "sync_attempt e audio w =
     (case call_recognize e audio w of
        (Inl ex, w1) \<Rightarrow> (Inl ex, w1)
      | (Inr response, w1) \<Rightarrow> (extract_transcript response, w1))"

definition long_running_attempt :: "env \<Rightarrow> bytes \<Rightarrow> world \<Rightarrow> (exn + string) \<times> world" where
  "long_running_attempt e audio w =
     (case call_long_running_recognize e audio w of
        (Inl ex, w1) \<Rightarrow> (Inl ex, w1)
      | (Inr response, w1) \<Rightarrow> (extract_transcript response, w1))"

text \<open>The end of a successful recognition in \<^verbatim>\<open>app.py\<close> and \<^verbatim>\<open>main.py\<close>: the body
  built from the transcript and the two clock readings.\<close>

definition transcript_body :: "string \<Rightarrow> real \<Rightarrow> real \<Rightarrow> body" where
  "transcript_body transcript_text start_time end_time =
     (let processing_time = end_time - start_time
      in if transcript_text = []
         then TranscriptTimeBody ''No speech detected'' (py_round2 processing_time)
         else TranscriptTimeBody transcript_text (py_round2 processing_time))"

definition app_speech_to_text_try :: "env \<Rightarrow> bytes \<Rightarrow> world \<Rightarrow> (exn + body) \<times> world" where
  "app_speech_to_text_try e audio_content w =
     (case read_clock e w of
        (start_time, w0) \<Rightarrow>
          if audio_content = [] then (Inl (HTTPException 400 ''Empty audio file''), w0)
          else
            (case (case sync_attempt e audio_content w0 of
                     (Inl ex, w1) \<Rightarrow> long_running_attempt e audio_content w1
                   | (Inr t, w1) \<Rightarrow> (Inr t, w1)) of
               (Inl ex, w2) \<Rightarrow> (Inl ex, w2)
             | (Inr transcript_text, w2) \<Rightarrow>
                 (case read_clock e w2 of
                    (end_time, w3) \<Rightarrow>
                      (Inr (transcript_body transcript_text start_time end_time), w3))))"

definition app_speech_to_text :: "env \<Rightarrow> bytes \<Rightarrow> world \<Rightarrow> (exn + body) \<times> world" where
  "app_speech_to_text e audio_content w =
     (case app_speech_to_text_try e audio_content w of
        (Inl ex, w') \<Rightarrow> (Inl (HTTPException 500 (str_exn e ex)), w')
      | (Inr b, w') \<Rightarrow> (Inr b, w'))"

section \<open>main.py\<close>

definition main_text_to_speech_try :: "env \<Rightarrow> string \<Rightarrow> world \<Rightarrow> (exn + body) \<times> world" where
  "main_text_to_speech_try e text_in w =
     (if text_in = [] then (Inl (HTTPException 400 ''Please provide text to convert''), w)
      else
        (case call_synthesize_speech e text_in w of
           (Inl ex, w1) \<Rightarrow> (Inl ex, w1)
         | (Inr audio_content, w1) \<Rightarrow>
             (Inr (StreamingResponse (audio_stream_generator audio_content) ''audio/wav''
                     [(''Content-Disposition'', ''inline; filename=synthesized_audio.wav'')]),
              w1)))"

definition main_text_to_speech :: "env \<Rightarrow> string \<Rightarrow> world \<Rightarrow> (exn + body) \<times> world" where
  "main_text_to_speech e text_in w =
     (case main_text_to_speech_try e text_in w of
        (Inl ex, w') \<Rightarrow>
          (Inl (HTTPException 500 (''Failed to synthesize speech: '' @ str_exn e ex)), w')
      | (Inr b, w') \<Rightarrow> (Inr b, w'))"

text \<open>The \<^verbatim>\<open>try\<close> of \<^verbatim>\<open>speech_to_text\<close> in \<^verbatim>\<open>main.py\<close>; the check of the upload
  is before it, outside.\<close>

definition main_speech_to_text_try ::
  "env \<Rightarrow> bytes \<Rightarrow> real \<Rightarrow> world \<Rightarrow> (exn + body) \<times> world" where
  "main_speech_to_text_try e audio_content start_time w =
     (case sync_attempt e audio_content w of
        (Inl ex, w1) \<Rightarrow> (Inl ex, w1)
      | (Inr transcript_text, w1) \<Rightarrow>
          (case read_clock e w1 of
             (end_time, w2) \<Rightarrow>
               (Inr (transcript_body transcript_text start_time end_time), w2)))"

definition stt_failed_prefix :: string where
  "stt_failed_prefix =
     ''Speech-to-text failed. Ensure audio format (encoding, sample rate) is correct '' @
     ''and within limits, and check network. Error: ''"

definition main_speech_to_text :: "env \<Rightarrow> bytes \<Rightarrow> world \<Rightarrow> (exn + body) \<times> world" where
  "main_speech_to_text e audio_content w =
     (case read_clock e w of
        (start_time, w0) \<Rightarrow>
          if audio_content = [] then (Inl (HTTPException 400 ''Empty audio file''), w0)
          else
            (case main_speech_to_text_try e audio_content start_time w0 of
               (Inl ex, w') \<Rightarrow>
                 (Inl (HTTPException 500 (stt_failed_prefix @ str_exn e ex)), w')
             | (Inr b, w') \<Rightarrow> (Inr b, w')))"

section \<open>test.py\<close>

text \<open>The text of a request to \<^verbatim>\<open>generate_audio\<close>: the form field of a POST, with
  a default when the form has none, and a fixed text for the other methods.\<close>

definition request_text :: "flask_request \<Rightarrow> string" where
  "request_text request =
     (case request of
        Post form \<Rightarrow> (case form of Some t \<Rightarrow> t | None \<Rightarrow> ''Hello, how are you?'')
      | Get \<Rightarrow> ''Hello, how are you Akshay?'')"

definition generate_audio_try ::
  "env \<Rightarrow> flask_request \<Rightarrow> world \<Rightarrow> (exn + body \<times> nat) \<times> world" where
  "generate_audio_try e request w =
     (let text_in = request_text request
      in if text_in = [] then (Inr (ErrorBody ''Please provide some text.'', 400), w)
         else
           (case tts_client_ctor e of
              Some m \<Rightarrow> (Inl (VendorError m), w)
            | None \<Rightarrow>
                (case call_synthesize_speech e text_in w of
                   (Inl ex, w1) \<Rightarrow> (Inl ex, w1)
                 | (Inr audio_content, w1) \<Rightarrow>
                     (Inr (AudioPathBody ''/static/output.wav'' text_in, 200),
                      write_file ''static/output.wav'' audio_content w1))))"

definition generate_audio :: "env \<Rightarrow> flask_request \<Rightarrow> world \<Rightarrow> (body \<times> nat) \<times> world" where
  "generate_audio e request w =
     (case generate_audio_try e request w of
        (Inl ex, w') \<Rightarrow> ((ErrorBody (str_exn e ex), 500), w')
      | (Inr r, w') \<Rightarrow> (r, w'))"

text \<open>
  The retry loop of \<^verbatim>\<open>generate_text\<close>, \<^verbatim>\<open>for attempt in range(3)\<close>, over the
  attempts still to run. It ends with a \<^verbatim>\<open>break\<close> and the response, with the
  \<^verbatim>\<open>return\<close> of an error response from inside the loop, or by running out of attempts
  with \<^verbatim>\<open>response\<close> never assigned.
\<close>

datatype loop_end =
    Break recognize_response
  | Return "body \<times> nat"
  | Exhausted

fun retry_loop :: "env \<Rightarrow> bytes \<Rightarrow> nat list \<Rightarrow> world \<Rightarrow> loop_end \<times> world" where
  "retry_loop e audio [] w = (Exhausted, w)"
| "retry_loop e audio (attempt # rest) w =
     (case call_long_running_recognize e audio w of
        (Inr response, w1) \<Rightarrow> (Break response, w1)
      | (Inl api_exception, w1) \<Rightarrow>
          if attempt < 2 then retry_loop e audio rest w1
          else (Return (ErrorBody (str_exn e api_exception), 500), w1))"

definition generate_text_try :: "env \<Rightarrow> world \<Rightarrow> (exn + body \<times> nat) \<times> world" where
  "generate_text_try e w =
     (case files w ''static/output.wav'' of
        None \<Rightarrow> (Inr (ErrorBody ''Audio file not found.'', 404), w)
      | Some audio_content \<Rightarrow>
          (case stt_client_ctor e of
             Some m \<Rightarrow> (Inl (VendorError m), w)
           | None \<Rightarrow>
               (case retry_loop e audio_content [0 ..< 3] w of
                  (Return r, w1) \<Rightarrow> (Inr r, w1)
                | (Exhausted, w1) \<Rightarrow> (Inl UnboundLocalError, w1)
                | (Break response, w1) \<Rightarrow>
                    (case extract_transcript response of
                       Inl ex \<Rightarrow> (Inl ex, w1)
                     | Inr transcript_text \<Rightarrow> (Inr (TranscriptBody transcript_text, 200), w1)))))"

definition generate_text :: "env \<Rightarrow> world \<Rightarrow> (body \<times> nat) \<times> world" where
  "generate_text e w =
     (case generate_text_try e w of
        (Inl ex, w') \<Rightarrow> ((ErrorBody (str_exn e ex), 500), w')
      | (Inr r, w') \<Rightarrow> (r, w'))"

section \<open>Observations and example inputs\<close>

text \<open>The transcript that a response carries, when it carries one.\<close>

fun body_transcript :: "body \<Rightarrow> string option" where
  "body_transcript (TranscriptTimeBody t s) = Some t"
| "body_transcript (TranscriptBody t) = Some t"
| "body_transcript (AudioPathBody p t) = None"
| "body_transcript (StreamingResponse chunks media_type headers) = None"
| "body_transcript (ErrorBody m) = None"

definition returned_transcript :: "exn + body \<Rightarrow> string option" where
  "returned_transcript r = (case r of Inl ex \<Rightarrow> None | Inr b \<Rightarrow> body_transcript b)"

text \<open>The status code with which FastAPI answers the outcome of a handler: 200 for a
  returned body, the code of a raised \<open>HTTPException\<close>; \<open>None\<close> when another exception
  leaves the handler.\<close>

definition status_code :: "exn + body \<Rightarrow> nat option" where
  "status_code r =
     (case r of
        Inr b \<Rightarrow> Some 200
      | Inl ex \<Rightarrow> (case ex of HTTPException c d \<Rightarrow> Some c | _ \<Rightarrow> None))"

text \<open>
  Following the words of the specification: the concatenation, in the order of the
  segments and with nothing between, of the transcript of the first alternative of each
  result segment that has one.
\<close>

definition concatenated_top_alternatives :: "recognize_response \<Rightarrow> string" where
  "concatenated_top_alternatives response =
     concat (map (transcript \<circ> hd \<circ> alternatives)
               (filter (\<lambda>r. alternatives r \<noteq> []) (results response)))"

text \<open>A fresh world, and an environment built from the answers of the three vendor
  operations to the call with a given index; its clock advances by half a second from
  one reading to the next.\<close>

definition world0 :: world where
  "world0 = \<lparr>vendor_calls = [], files = Map.empty, clock_reads = 0\<rparr>"

definition example_env ::
  "(nat \<Rightarrow> string + bytes) \<Rightarrow> (nat \<Rightarrow> string + recognize_response) \<Rightarrow>
   (nat \<Rightarrow> string + operation) \<Rightarrow> env" where
  "example_env syn rec lro =
     \<lparr>synthesize_speech = (\<lambda>k t. syn k),
      recognize = (\<lambda>k a. rec k),
      long_running_recognize = (\<lambda>k a. lro k),
      tts_client_ctor = None,
      stt_client_ctor = None,
      time_time = (\<lambda>k. 100 + real k / 2),
      str_library = (\<lambda>ex. ''library exception'')\<rparr>"

definition hello_response :: recognize_response where
  "hello_response =
     \<lparr>results = [\<lparr>alternatives = [\<lparr>transcript = ''hello ''\<rparr>]\<rparr>,
                 \<lparr>alternatives = [\<lparr>transcript = ''world''\<rparr>]\<rparr>]\<rparr>"

definition empty_response :: recognize_response where
  "empty_response = \<lparr>results = []\<rparr>"

text \<open>Environments: every vendor call fails; recognition hears the two segments;
  recognition succeeds with no segment; synchronous recognition fails and long-running
  recognition succeeds; synthesis returns a first and then a second audio; synthesis
  returns 4097 bytes; long-running recognition fails as the first and as the second vendor
  call and succeeds from the third on.\<close>

definition failing_env :: env where
  "failing_env =
     example_env (\<lambda>k. Inl ''quota exceeded'') (\<lambda>k. Inl ''deadline exceeded'')
       (\<lambda>k. if k < 2 then Inl ''unavailable'' else Inl ''still unavailable'')"

definition hello_env :: env where
  "hello_env =
     example_env (\<lambda>k. Inr [1, 2, 3]) (\<lambda>k. Inr hello_response) (\<lambda>k. Inr (Inr hello_response))"

definition silent_env :: env where
  "silent_env =
     example_env (\<lambda>k. Inr []) (\<lambda>k. Inr empty_response) (\<lambda>k. Inr (Inr empty_response))"

definition fallback_env :: env where
  "fallback_env =
     example_env (\<lambda>k. Inr [1, 2, 3]) (\<lambda>k. Inl ''deadline exceeded'')
       (\<lambda>k. Inr (Inr hello_response))"

definition two_audio_env :: env where
  "two_audio_env =
     example_env (\<lambda>k. if k = 0 then Inr [1] else Inr [2]) (\<lambda>k. Inr hello_response)
       (\<lambda>k. Inr (Inr hello_response))"

definition long_audio_env :: env where
  "long_audio_env =
     example_env (\<lambda>k. Inr (replicate 4096 0 @ [7])) (\<lambda>k. Inr hello_response)
       (\<lambda>k. Inr (Inr hello_response))"

definition recovering_env :: env where
  "recovering_env =
     example_env (\<lambda>k. Inr [1, 2, 3]) (\<lambda>k. Inl ''deadline exceeded'')
       (\<lambda>k. if k < 2 then Inl ''unavailable'' else Inr (Inr hello_response))"

text \<open>A world in which \<^verbatim>\<open>static/output.wav\<close> has been saved, and that world after one
  vendor call.\<close>

definition saved_world :: world where
  "saved_world = world0\<lparr>files := [''static/output.wav'' \<mapsto> [1]]\<rparr>"

definition called_world :: world where
  "called_world = saved_world\<lparr>vendor_calls := [LongRunningRecognize [1]]\<rparr>"

section \<open>Lemmas on the primitives\<close>

subsection \<open>The chunks of the streaming helper\<close>

lemma audio_stream_generator_Nil: "audio_stream_generator [] = []"
  by (simp add: audio_stream_generator.simps)

lemma audio_stream_generator_Cons:
  "buffer \<noteq> [] \<Longrightarrow>
   audio_stream_generator buffer = take 4096 buffer # audio_stream_generator (drop 4096 buffer)"
  by (subst audio_stream_generator.simps) simp

lemma concat_chunks: "concat (audio_stream_generator buffer) = buffer"
proof (induction buffer rule: audio_stream_generator.induct)
  case (1 buffer)
  show ?case
  proof (cases "buffer = []")
    case True
    then show ?thesis by (simp add: audio_stream_generator_Nil)
  next
    case False
    then have "take 4096 buffer \<noteq> []" by simp
    with 1 False show ?thesis by (simp add: audio_stream_generator_Cons)
  qed
qed

lemma chunks_nonempty: "c \<in> set (audio_stream_generator buffer) \<Longrightarrow> c \<noteq> []"
proof (induction buffer rule: audio_stream_generator.induct)
  case (1 buffer)
  show ?case
  proof (cases "buffer = []")
    case True
    with 1(2) show ?thesis by (simp add: audio_stream_generator_Nil)
  next
    case False
    then have ne: "take 4096 buffer \<noteq> []" by simp
    from 1(2) False
    have "c = take 4096 buffer \<or> c \<in> set (audio_stream_generator (drop 4096 buffer))"
      by (simp add: audio_stream_generator_Cons)
    with 1(1)[OF ne] ne show ?thesis by auto
  qed
qed

lemma chunks_le: "c \<in> set (audio_stream_generator buffer) \<Longrightarrow> length c \<le> 4096"
proof (induction buffer rule: audio_stream_generator.induct)
  case (1 buffer)
  show ?case
  proof (cases "buffer = []")
    case True
    with 1(2) show ?thesis by (simp add: audio_stream_generator_Nil)
  next
    case False
    then have ne: "take 4096 buffer \<noteq> []" by simp
    from 1(2) False
    have "c = take 4096 buffer \<or> c \<in> set (audio_stream_generator (drop 4096 buffer))"
      by (simp add: audio_stream_generator_Cons)
    with 1(1)[OF ne] show ?thesis by auto
  qed
qed

lemma chunks_full: "c \<in> set (butlast (audio_stream_generator buffer)) \<Longrightarrow> length c = 4096"
proof (induction buffer rule: audio_stream_generator.induct)
  case (1 buffer)
  show ?case
  proof (cases "buffer = []")
    case True
    with 1(2) show ?thesis by (simp add: audio_stream_generator_Nil)
  next
    case False
    then have ne: "take 4096 buffer \<noteq> []" by simp
    show ?thesis
    proof (cases "drop 4096 buffer = []")
      case True
      with 1(2) False show ?thesis
        by (simp add: audio_stream_generator_Cons audio_stream_generator_Nil)
    next
      case rest: False
      then have long: "4096 < length buffer" by simp
      have "audio_stream_generator (drop 4096 buffer) \<noteq> []"
        using rest by (simp add: audio_stream_generator_Cons)
      with 1(2) False
      have "c = take 4096 buffer \<or>
            c \<in> set (butlast (audio_stream_generator (drop 4096 buffer)))"
        by (simp add: audio_stream_generator_Cons)
      with 1(1)[OF ne] long show ?thesis by auto
    qed
  qed
qed

subsection \<open>Decimal strings\<close>

lemma digit_char_inj:
  assumes "a < 10" "b < 10" "digit_char a = digit_char b"
  shows "a = b"
proof -
  from assms(3) have "of_char (digit_char a) = (of_char (digit_char b) :: nat)" by simp
  then have "(48 + a) mod 256 = (48 + b) mod 256" by (simp add: digit_char_def)
  with assms(1,2) show ?thesis by simp
qed

lemma digit_char_not_minus: "d < 10 \<Longrightarrow> digit_char d \<noteq> CHR ''-''"
proof
  assume d: "d < 10" and "digit_char d = CHR ''-''"
  then have "of_char (digit_char d) = (of_char (CHR ''-'') :: nat)" by simp
  then have "(48 + d) mod 256 = 45" by (simp add: digit_char_def)
  with d show False by simp
qed

lemma str_nat_small: "n < 10 \<Longrightarrow> str_nat n = [digit_char n]"
  by (subst str_nat.simps) simp

lemma str_nat_large:
  "\<not> n < 10 \<Longrightarrow> str_nat n = str_nat (n div 10) @ [digit_char (n mod 10)]"
  by (subst str_nat.simps) simp

lemma str_nat_nonempty: "str_nat n \<noteq> []"
  by (cases "n < 10") (simp_all add: str_nat_small str_nat_large)

lemma str_nat_inj: "str_nat n = str_nat m \<Longrightarrow> n = m"
proof (induction n arbitrary: m rule: str_nat.induct)
  case (1 n)
  show ?case
  proof (cases "n < 10")
    case True
    show ?thesis
    proof (cases "m < 10")
      case m: True
      with True 1(2) show ?thesis by (simp add: str_nat_small digit_char_inj)
    next
      case False
      with True 1(2) str_nat_nonempty [of "m div 10"] show ?thesis
        by (simp add: str_nat_small str_nat_large Cons_eq_append_conv)
    qed
  next
    case False
    show ?thesis
    proof (cases "m < 10")
      case True
      with False 1(2) str_nat_nonempty [of "n div 10"] show ?thesis
        by (simp add: str_nat_small str_nat_large append_eq_Cons_conv)
    next
      case m: False
      with False 1(2) have eq: "str_nat (n div 10) = str_nat (m div 10)"
        and d: "digit_char (n mod 10) = digit_char (m mod 10)"
        by (simp_all add: str_nat_large)
      from 1(1) [OF False eq] have "n div 10 = m div 10" .
      moreover from d have "n mod 10 = m mod 10" by (simp add: digit_char_inj)
      ultimately show ?thesis by (metis div_mult_mod_eq)
    qed
  qed
qed

lemma hd_str_nat_not_minus: "hd (str_nat n) \<noteq> CHR ''-''"
proof (induction n rule: str_nat.induct)
  case (1 n)
  show ?case
  proof (cases "n < 10")
    case True
    then show ?thesis by (simp add: str_nat_small digit_char_not_minus)
  next
    case False
    with 1 str_nat_nonempty [of "n div 10"] show ?thesis
      by (simp add: str_nat_large)
  qed
qed

lemma str_int_inj: "str_int i = str_int j \<Longrightarrow> i = j"
proof -
  assume eq: "str_int i = str_int j"
  have ne: "str_nat k \<noteq> CHR ''-'' # s" for k s
    using hd_str_nat_not_minus [of k] by (cases "str_nat k") auto
  show ?thesis
  proof (cases "i < 0")
    case True
    show ?thesis
    proof (cases "j < 0")
      case j: True
      with True eq have "nat (- i) = nat (- j)" by (simp add: str_int_def str_nat_inj)
      with True j show ?thesis by simp
    next
      case False
      with True eq ne show ?thesis by (simp add: str_int_def) metis
    qed
  next
    case False
    show ?thesis
    proof (cases "j < 0")
      case True
      with False eq ne show ?thesis by (simp add: str_int_def)
    next
      case j: False
      with False eq have "nat i = nat j" by (simp add: str_int_def str_nat_inj)
      with False j show ?thesis by simp
    qed
  qed
qed

lemma str_int_100: "str_int 100 = ''100''"
  by code_simp

subsection \<open>Transcript extraction\<close>

lemma top_transcripts_eq:
  "top_transcripts rs =
     Inr (map (transcript \<circ> hd \<circ> alternatives) (filter (\<lambda>r. alternatives r \<noteq> []) rs))"
  by (induction rs) (auto simp: index0_def split: list.splits)

lemma extract_transcript_eq:
  "extract_transcript response = Inr (concatenated_top_alternatives response)"
  by (simp add: extract_transcript_def top_transcripts_eq concatenated_top_alternatives_def)


lemma transcript_body_nonempty:
  "t \<noteq> [] \<Longrightarrow> transcript_body t t0 t1 = TranscriptTimeBody t (py_round2 (t1 - t0))"
  by (simp add: transcript_body_def)



lemma py_round2_half: "py_round2 (1 / 2) = 1 / 2"
  by (simp add: py_round2_def Let_def)

section \<open>The handlers, case by case\<close>

lemmas call_defs =
  call_synthesize_speech_def call_recognize_def call_long_running_recognize_def
  read_clock_def write_file_def str_exn_def

lemmas app_defs =
  app_text_to_speech_def app_text_to_speech_try_def app_speech_to_text_def
  app_speech_to_text_try_def sync_attempt_def long_running_attempt_def

lemmas main_defs =
  main_text_to_speech_def main_text_to_speech_try_def main_speech_to_text_def
  main_speech_to_text_try_def sync_attempt_def

lemmas flask_defs =
  generate_audio_def generate_audio_try_def generate_text_def generate_text_try_def

lemmas example_defs =
  example_env_def world0_def saved_world_def hello_response_def empty_response_def
  failing_env_def hello_env_def silent_env_def fallback_env_def two_audio_env_def
  long_audio_env_def recovering_env_def called_world_def


subsection \<open>The synthesis handlers, case by case\<close>

lemma app_text_to_speech_empty:
  "app_text_to_speech e [] w =
     (Inl (HTTPException 500
        (str_library e (HTTPException 400 ''Please provide text to convert''))), w)"
  by (simp add: app_defs call_defs)

lemma main_text_to_speech_empty:
  "main_text_to_speech e [] w =
     (Inl (HTTPException 500 (''Failed to synthesize speech: '' @
        str_library e (HTTPException 400 ''Please provide text to convert''))), w)"
  by (simp add: main_defs call_defs)

lemma generate_audio_empty:
  "request_text request = [] \<Longrightarrow>
   generate_audio e request w = ((ErrorBody ''Please provide some text.'', 400), w)"
  by (simp add: flask_defs Let_def)

lemma app_text_to_speech_error:
  assumes "text_in \<noteq> []" and "synthesize_speech e (length (vendor_calls w)) text_in = Inl m"
  shows "app_text_to_speech e text_in w =
     (Inl (HTTPException 500 m), w\<lparr>vendor_calls := vendor_calls w @ [SynthesizeSpeech text_in]\<rparr>)"
  using assms by (simp add: app_defs call_defs)

lemma main_text_to_speech_error:
  assumes "text_in \<noteq> []" and "synthesize_speech e (length (vendor_calls w)) text_in = Inl m"
  shows "main_text_to_speech e text_in w =
     (Inl (HTTPException 500 (''Failed to synthesize speech: '' @ m)),
      w\<lparr>vendor_calls := vendor_calls w @ [SynthesizeSpeech text_in]\<rparr>)"
  using assms by (simp add: main_defs call_defs)

lemma generate_audio_error:
  assumes "request_text request \<noteq> []" and "tts_client_ctor e = None"
    and "synthesize_speech e (length (vendor_calls w)) (request_text request) = Inl m"
  shows "generate_audio e request w =
     ((ErrorBody m, 500),
      w\<lparr>vendor_calls := vendor_calls w @ [SynthesizeSpeech (request_text request)]\<rparr>)"
  using assms by (simp add: flask_defs call_defs Let_def)

lemma app_text_to_speech_ok:
  assumes "text_in \<noteq> []" and "synthesize_speech e (length (vendor_calls w)) text_in = Inr audio"
  shows "fst (app_text_to_speech e text_in w) =
           Inr (AudioPathBody
             (''/static/output_'' @ str_int (py_int (time_time e (clock_reads w))) @ ''.wav'')
             text_in)"
    and "files (snd (app_text_to_speech e text_in w)) =
           (files w)(''static/output_'' @ str_int (py_int (time_time e (clock_reads w))) @ ''.wav''
              \<mapsto> audio)"
    and "vendor_calls (snd (app_text_to_speech e text_in w)) =
           vendor_calls w @ [SynthesizeSpeech text_in]"
    and "clock_reads (snd (app_text_to_speech e text_in w)) = Suc (clock_reads w)"
  using assms by (simp_all add: app_defs call_defs Let_def)

lemma main_text_to_speech_ok:
  assumes "text_in \<noteq> []" and "synthesize_speech e (length (vendor_calls w)) text_in = Inr audio"
  shows "main_text_to_speech e text_in w =
     (Inr (StreamingResponse (audio_stream_generator audio) ''audio/wav''
             [(''Content-Disposition'', ''inline; filename=synthesized_audio.wav'')]),
      w\<lparr>vendor_calls := vendor_calls w @ [SynthesizeSpeech text_in]\<rparr>)"
  using assms by (simp add: main_defs call_defs)

lemma main_text_to_speech_files: "files (snd (main_text_to_speech e text_in w)) = files w"
  by (simp add: main_defs call_defs split: sum.splits)

lemma generate_audio_ok:
  assumes "request_text request \<noteq> []" and "tts_client_ctor e = None"
    and "synthesize_speech e (length (vendor_calls w)) (request_text request) = Inr audio"
  shows "fst (generate_audio e request w) =
           (AudioPathBody ''/static/output.wav'' (request_text request), 200)"
    and "files (snd (generate_audio e request w)) =
           (files w)(''static/output.wav'' \<mapsto> audio)"
    and "vendor_calls (snd (generate_audio e request w)) =
           vendor_calls w @ [SynthesizeSpeech (request_text request)]"
  using assms by (simp_all add: flask_defs call_defs Let_def)

subsection \<open>The transcription handlers, case by case\<close>

lemma app_speech_to_text_empty:
  "app_speech_to_text e [] w =
     (Inl (HTTPException 500 (str_library e (HTTPException 400 ''Empty audio file''))),
      w\<lparr>clock_reads := Suc (clock_reads w)\<rparr>)"
  by (simp add: app_defs call_defs)

lemma main_speech_to_text_empty:
  "main_speech_to_text e [] w =
     (Inl (HTTPException 400 ''Empty audio file''), w\<lparr>clock_reads := Suc (clock_reads w)\<rparr>)"
  by (simp add: main_defs call_defs)

lemma app_speech_to_text_sync_ok:
  assumes "audio \<noteq> []" and "recognize e (length (vendor_calls w)) audio = Inr response"
  shows "fst (app_speech_to_text e audio w) =
           Inr (transcript_body (concatenated_top_alternatives response)
                  (time_time e (clock_reads w)) (time_time e (Suc (clock_reads w))))"
    and "vendor_calls (snd (app_speech_to_text e audio w)) = vendor_calls w @ [Recognize audio]"
  using assms by (simp_all add: app_defs call_defs extract_transcript_eq)

lemma main_speech_to_text_ok:
  assumes "audio \<noteq> []" and "recognize e (length (vendor_calls w)) audio = Inr response"
  shows "fst (main_speech_to_text e audio w) =
           Inr (transcript_body (concatenated_top_alternatives response)
                  (time_time e (clock_reads w)) (time_time e (Suc (clock_reads w))))"
    and "vendor_calls (snd (main_speech_to_text e audio w)) = vendor_calls w @ [Recognize audio]"
  using assms by (simp_all add: main_defs call_defs extract_transcript_eq)

lemma app_speech_to_text_sync_error:
  assumes "audio \<noteq> []" and "recognize e (length (vendor_calls w)) audio = Inl m"
  shows "vendor_calls (snd (app_speech_to_text e audio w)) =
           vendor_calls w @ [Recognize audio, LongRunningRecognize audio]"
    and "long_running_outcome e (Suc (length (vendor_calls w))) audio = Inl m2 \<Longrightarrow>
           fst (app_speech_to_text e audio w) = Inl (HTTPException 500 m2)"
    and "long_running_outcome e (Suc (length (vendor_calls w))) audio = Inr response \<Longrightarrow>
           fst (app_speech_to_text e audio w) =
             Inr (transcript_body (concatenated_top_alternatives response)
                   (time_time e (clock_reads w)) (time_time e (Suc (clock_reads w))))"
  using assms
  by (simp_all add: app_defs call_defs extract_transcript_eq split: sum.splits)

lemma main_speech_to_text_error:
  assumes "audio \<noteq> []" and "recognize e (length (vendor_calls w)) audio = Inl m"
  shows "fst (main_speech_to_text e audio w) = Inl (HTTPException 500 (stt_failed_prefix @ m))"
    and "vendor_calls (snd (main_speech_to_text e audio w)) = vendor_calls w @ [Recognize audio]"
  using assms by (simp_all add: main_defs call_defs)

lemma range3: "[0 ..< 3] = [0, 1, 2]"
  by (simp add: upt_rec)

lemma retry_loop_calls:
  "\<exists>n \<le> length attempts.
     vendor_calls (snd (retry_loop e audio attempts w)) =
       vendor_calls w @ replicate n (LongRunningRecognize audio)"
proof (induction attempts arbitrary: w)
  case Nil
  then show ?case by simp
next
  case (Cons attempt rest)
  let ?w1 = "w\<lparr>vendor_calls := vendor_calls w @ [LongRunningRecognize audio]\<rparr>"
  from Cons [of ?w1] obtain n where n: "n \<le> length rest"
    "vendor_calls (snd (retry_loop e audio rest ?w1)) =
       vendor_calls ?w1 @ replicate n (LongRunningRecognize audio)"
    by blast
  show ?case
  proof (cases "long_running_outcome e (length (vendor_calls w)) audio")
    case (Inr response)
    then have "vendor_calls (snd (retry_loop e audio (attempt # rest) w)) =
        vendor_calls w @ replicate 1 (LongRunningRecognize audio)"
      by (simp add: call_defs)
    then show ?thesis by (intro exI [of _ 1]) simp
  next
    case (Inl m)
    show ?thesis
    proof (cases "attempt < 2")
      case True
      with Inl n have "vendor_calls (snd (retry_loop e audio (attempt # rest) w)) =
          vendor_calls w @ replicate (Suc n) (LongRunningRecognize audio)"
        by (simp add: call_defs)
      with n(1) show ?thesis by (intro exI [of _ "Suc n"]) simp
    next
      case False
      with Inl have "vendor_calls (snd (retry_loop e audio (attempt # rest) w)) =
          vendor_calls w @ replicate 1 (LongRunningRecognize audio)"
        by (simp add: call_defs)
      then show ?thesis by (intro exI [of _ 1]) simp
    qed
  qed
qed

lemma generate_text_calls:
  "\<exists>n \<le> 3. \<exists>audio.
     vendor_calls (snd (generate_text e w)) =
       vendor_calls w @ replicate n (LongRunningRecognize audio)"
proof (cases "files w ''static/output.wav''")
  case None
  then have "vendor_calls (snd (generate_text e w)) =
      vendor_calls w @ replicate 0 (LongRunningRecognize [])"
    by (simp add: flask_defs)
  then show ?thesis by blast
next
  case (Some audio)
  show ?thesis
  proof (cases "stt_client_ctor e")
    case ctor: (Some m)
    with Some have "vendor_calls (snd (generate_text e w)) =
        vendor_calls w @ replicate 0 (LongRunningRecognize [])"
      by (simp add: flask_defs)
    then show ?thesis by blast
  next
    case None
    obtain n where n: "n \<le> length [0 ..< (3::nat)]"
      "vendor_calls (snd (retry_loop e audio [0 ..< 3] w)) =
         vendor_calls w @ replicate n (LongRunningRecognize audio)"
      using retry_loop_calls [of "[0 ..< 3]" e audio w] by blast
    have "snd (generate_text e w) = snd (retry_loop e audio [0 ..< 3] w)"
      using Some None
      by (simp add: flask_defs extract_transcript_eq split: prod.splits loop_end.splits)
    with n show ?thesis by (intro exI [of _ n]) auto
  qed
qed

text \<open>The loop over \<^verbatim>\<open>range(3)\<close> never ends without a \<^verbatim>\<open>break\<close> or a
  \<^verbatim>\<open>return\<close>: \<^verbatim>\<open>response\<close> is assigned wherever it is read.\<close>

lemma retry_loop_not_exhausted: "fst (retry_loop e audio [0 ..< 3] w) \<noteq> Exhausted"
  by (simp add: range3 split: prod.splits sum.splits)

lemma generate_text_all_fail:
  assumes "files w ''static/output.wav'' = Some audio" and "stt_client_ctor e = None"
    and "long_running_outcome e (length (vendor_calls w)) audio = Inl m0"
    and "long_running_outcome e (length (vendor_calls w) + 1) audio = Inl m1"
    and "long_running_outcome e (length (vendor_calls w) + 2) audio = Inl m2"
  shows "fst (generate_text e w) = (ErrorBody m2, 500)"
    and "vendor_calls (snd (generate_text e w)) =
           vendor_calls w @ replicate 3 (LongRunningRecognize audio)"
    and "files (snd (generate_text e w)) = files w"
  using assms by (simp_all add: flask_defs range3 call_defs numeral_3_eq_3)

lemma fastapi_handlers_answer:
  "status_code (fst (app_text_to_speech e text_in w)) \<noteq> None"
  "status_code (fst (main_text_to_speech e text_in w)) \<noteq> None"
  "status_code (fst (app_speech_to_text e audio w)) \<noteq> None"
  "status_code (fst (main_speech_to_text e audio w)) \<noteq> None"
  by (simp_all add: app_defs main_defs call_defs status_code_def Let_def extract_transcript_eq
      split: sum.splits prod.splits)

lemma app_audio_filename_inj:
  "''static/output_'' @ str_int i @ ''.wav'' = ''static/output_'' @ str_int j @ ''.wav'' \<Longrightarrow> i = j"
  by (simp add: str_int_inj)

text \<open>The transcription handlers write no file, and \<^verbatim>\<open>generate_text\<close> answers with
  the transcript as soon as an attempt succeeds.\<close>

lemma retry_loop_files: "files (snd (retry_loop e audio attempts w)) = files w"
  by (induction attempts arbitrary: w) (simp_all add: call_defs split: sum.splits)

lemma transcription_writes_no_file:
  "files (snd (app_speech_to_text e audio w)) = files w"
  "files (snd (main_speech_to_text e audio w)) = files w"
  by (simp_all add: app_defs main_defs call_defs extract_transcript_eq split: sum.splits)

lemma generate_text_files: "files (snd (generate_text e w)) = files w"
proof (cases "files w ''static/output.wav''")
  case None
  then show ?thesis by (simp add: flask_defs)
next
  case (Some audio)
  show ?thesis
  proof (cases "stt_client_ctor e")
    case ctor: (Some m)
    with Some show ?thesis by (simp add: flask_defs)
  next
    case None
    have "snd (generate_text e w) = snd (retry_loop e audio [0 ..< 3] w)"
      using Some None
      by (simp add: flask_defs extract_transcript_eq split: prod.splits loop_end.splits)
    then show ?thesis by (simp add: retry_loop_files)
  qed
qed

lemma generate_text_recovers:
  assumes "files w ''static/output.wav'' = Some audio" and "stt_client_ctor e = None"
  shows "long_running_outcome e (length (vendor_calls w)) audio = Inr response \<Longrightarrow>
           fst (generate_text e w) = (TranscriptBody (concatenated_top_alternatives response), 200) \<and>
           vendor_calls (snd (generate_text e w)) =
             vendor_calls w @ replicate 1 (LongRunningRecognize audio)"
    and "long_running_outcome e (length (vendor_calls w)) audio = Inl m0 \<Longrightarrow>
         long_running_outcome e (length (vendor_calls w) + 1) audio = Inr response \<Longrightarrow>
           fst (generate_text e w) = (TranscriptBody (concatenated_top_alternatives response), 200) \<and>
           vendor_calls (snd (generate_text e w)) =
             vendor_calls w @ replicate 2 (LongRunningRecognize audio)"
    and "long_running_outcome e (length (vendor_calls w)) audio = Inl m0 \<Longrightarrow>
         long_running_outcome e (length (vendor_calls w) + 1) audio = Inl m1 \<Longrightarrow>
         long_running_outcome e (length (vendor_calls w) + 2) audio = Inr response \<Longrightarrow>
           fst (generate_text e w) = (TranscriptBody (concatenated_top_alternatives response), 200) \<and>
           vendor_calls (snd (generate_text e w)) =
             vendor_calls w @ replicate 3 (LongRunningRecognize audio)"
  using assms
  by (simp_all add: flask_defs range3 call_defs extract_transcript_eq numeral_2_eq_2
      numeral_3_eq_3)

lemma status_code_body: "status_code (Inr b) = Some 200"
  by (simp add: status_code_def)

section \<open>The claims\<close>

text \<open>
  Claim C1. A request to the synthesis endpoint with the empty text is to be answered with a
  client error, and no vendor call is issued. No vendor call is issued in any variant (the
  world is unchanged), and \<^verbatim>\<open>generate_audio\<close> of \<^verbatim>\<open>test.py\<close> answers with status 400. In
  \<^verbatim>\<open>app.py\<close> and \<^verbatim>\<open>main.py\<close> the \<^verbatim>\<open>HTTPException\<close> with status 400 is raised inside the
  \<^verbatim>\<open>try\<close> whose \<^verbatim>\<open>except Exception\<close> catches it, and the handler raises an
  \<^verbatim>\<open>HTTPException\<close> with status 500.
\<close>

theorem empty_text_responses:
  "app_text_to_speech e [] w =
     (Inl (HTTPException 500
        (str_library e (HTTPException 400 ''Please provide text to convert''))), w) \<and>
   main_text_to_speech e [] w =
     (Inl (HTTPException 500 (''Failed to synthesize speech: '' @
        str_library e (HTTPException 400 ''Please provide text to convert''))), w) \<and>
   generate_audio e (Post (Some [])) w = ((ErrorBody ''Please provide some text.'', 400), w)"
  using app_text_to_speech_empty [of e w] main_text_to_speech_empty [of e w]
    generate_audio_empty [of "Post (Some [])" e w]
  by (simp add: request_text_def)

text \<open>
  Claim C2. A request to the transcription endpoint with an empty upload is to be answered
  with a client error, and no vendor call is issued. No vendor call is issued in either
  variant (only the clock is read), and \<^verbatim>\<open>main.py\<close>, which checks the upload before its
  \<^verbatim>\<open>try\<close>, raises the \<^verbatim>\<open>HTTPException\<close> with status 400. In \<^verbatim>\<open>app.py\<close> the check is
  inside the \<^verbatim>\<open>try\<close>, the \<^verbatim>\<open>except Exception\<close> catches the exception, and the handler
  raises an \<^verbatim>\<open>HTTPException\<close> with status 500.
\<close>

theorem empty_audio_responses:
  "app_speech_to_text e [] w =
     (Inl (HTTPException 500 (str_library e (HTTPException 400 ''Empty audio file''))),
      w\<lparr>clock_reads := Suc (clock_reads w)\<rparr>) \<and>
   main_speech_to_text e [] w =
     (Inl (HTTPException 400 ''Empty audio file''), w\<lparr>clock_reads := Suc (clock_reads w)\<rparr>)"
  using app_speech_to_text_empty [of e w] main_speech_to_text_empty [of e w]
  by simp

text \<open>
  Claim C3. When the synchronous recognition call fails: \<^verbatim>\<open>app.py\<close> issues the long-running
  call exactly once after it, and a failure of that call is answered with status 500 and its
  message; \<^verbatim>\<open>main.py\<close> answers with status 500 and has issued no second vendor call.
  \<^verbatim>\<open>generate_text\<close> of \<^verbatim>\<open>test.py\<close> issues at most three vendor calls at all, each a
  long-running one, and when three attempts fail it answers with status 500 and the message
  of the last.
\<close>

theorem synchronous_failure_paths:
  "(audio \<noteq> [] \<and> recognize e (length (vendor_calls w)) audio = Inl m \<longrightarrow>
      vendor_calls (snd (app_speech_to_text e audio w)) =
        vendor_calls w @ [Recognize audio, LongRunningRecognize audio] \<and>
      (long_running_outcome e (Suc (length (vendor_calls w))) audio = Inl m' \<longrightarrow>
         fst (app_speech_to_text e audio w) = Inl (HTTPException 500 m')) \<and>
      fst (main_speech_to_text e audio w) = Inl (HTTPException 500 (stt_failed_prefix @ m)) \<and>
      vendor_calls (snd (main_speech_to_text e audio w)) = vendor_calls w @ [Recognize audio]) \<and>
   (\<exists>n \<le> 3. \<exists>a. vendor_calls (snd (generate_text e w)) =
      vendor_calls w @ replicate n (LongRunningRecognize a)) \<and>
   (files w ''static/output.wav'' = Some saved \<and> stt_client_ctor e = None \<and>
    long_running_outcome e (length (vendor_calls w)) saved = Inl m0 \<and>
    long_running_outcome e (length (vendor_calls w) + 1) saved = Inl m1 \<and>
    long_running_outcome e (length (vendor_calls w) + 2) saved = Inl m2 \<longrightarrow>
      fst (generate_text e w) = (ErrorBody m2, 500) \<and>
      vendor_calls (snd (generate_text e w)) =
        vendor_calls w @ replicate 3 (LongRunningRecognize saved))"
  using app_speech_to_text_sync_error(1,2) [of audio e w m]
    main_speech_to_text_error [of audio e w m] generate_text_calls [of e w]
    generate_text_all_fail(1,2) [of w saved e m0 m1 m2]
  by blast

text \<open>
  The three variants where every recognition call fails, the third long-running one with a
  message of its own.
\<close>

theorem synchronous_failure_paths_witness:
  "fst (app_speech_to_text failing_env [1] saved_world) = Inl (HTTPException 500 ''unavailable'') \<and>
   vendor_calls (snd (app_speech_to_text failing_env [1] saved_world)) =
     [Recognize [1], LongRunningRecognize [1]] \<and>
   fst (main_speech_to_text failing_env [1] saved_world) =
     Inl (HTTPException 500 (stt_failed_prefix @ ''deadline exceeded'')) \<and>
   vendor_calls (snd (main_speech_to_text failing_env [1] saved_world)) = [Recognize [1]] \<and>
   fst (generate_text failing_env saved_world) = (ErrorBody ''still unavailable'', 500) \<and>
   vendor_calls (snd (generate_text failing_env saved_world)) =
     [LongRunningRecognize [1], LongRunningRecognize [1], LongRunningRecognize [1]]"
  using synchronous_failure_paths
    [of "[1]" failing_env saved_world "''deadline exceeded''" "''unavailable''" "[1]"
        "''unavailable''" "''unavailable''" "''still unavailable''"]
  by (simp add: example_defs long_running_outcome_def numeral_3_eq_3)

text \<open>
  Claim C4, as stated: the returned transcript is, for every successful recognition
  response, the concatenation of the top alternatives' transcripts. It is not where that
  concatenation is empty: for a response without segments \<^verbatim>\<open>main.py\<close> returns
  \<^verbatim>\<open>No speech detected\<close>.
\<close>

theorem returned_transcript_not_concatenation:
  "recognize silent_env (length (vendor_calls world0)) [1] = Inr empty_response \<and>
   returned_transcript (fst (main_speech_to_text silent_env [1] world0)) =
     Some ''No speech detected'' \<and>
   returned_transcript (fst (main_speech_to_text silent_env [1] world0)) \<noteq>
     Some (concatenated_top_alternatives empty_response)"
  by (simp add: main_defs call_defs example_defs extract_transcript_eq
      concatenated_top_alternatives_def transcript_body_def returned_transcript_def)

text \<open>
  Claim C4, amended. For every successful recognition response (of the synchronous call in
  \<^verbatim>\<open>app.py\<close> and \<^verbatim>\<open>main.py\<close>, of the long-running call after a failed synchronous one in
  \<^verbatim>\<open>app.py\<close>) whose concatenation of top alternatives is not empty, the returned transcript
  is that concatenation: the transcripts of the first alternative of each segment that has
  one, in the order of the segments and with nothing between.
\<close>

theorem returned_transcript_is_concatenation:
  "audio \<noteq> [] \<and> concatenated_top_alternatives response \<noteq> [] \<longrightarrow>
     (recognize e (length (vendor_calls w)) audio = Inr response \<longrightarrow>
        returned_transcript (fst (app_speech_to_text e audio w)) =
          Some (concatenated_top_alternatives response) \<and>
        returned_transcript (fst (main_speech_to_text e audio w)) =
          Some (concatenated_top_alternatives response)) \<and>
     (recognize e (length (vendor_calls w)) audio = Inl m \<and>
      long_running_outcome e (Suc (length (vendor_calls w))) audio = Inr response \<longrightarrow>
        returned_transcript (fst (app_speech_to_text e audio w)) =
          Some (concatenated_top_alternatives response))"
  using app_speech_to_text_sync_ok(1) [of audio e w response]
    main_speech_to_text_ok(1) [of audio e w response]
    app_speech_to_text_sync_error(3) [of audio e w m response]
  by (simp add: transcript_body_nonempty returned_transcript_def)

text \<open>
  The two segments \<^verbatim>\<open>hello \<close> and \<^verbatim>\<open>world\<close> yield \<^verbatim>\<open>hello world\<close>, on each of the
  three paths.
\<close>

theorem returned_transcript_is_concatenation_witness:
  "concatenated_top_alternatives hello_response = ''hello world'' \<and>
   returned_transcript (fst (app_speech_to_text hello_env [1] world0)) = Some ''hello world'' \<and>
   returned_transcript (fst (main_speech_to_text hello_env [1] world0)) = Some ''hello world'' \<and>
   returned_transcript (fst (app_speech_to_text fallback_env [1] world0)) = Some ''hello world''"
  using returned_transcript_is_concatenation
      [of "[1]" hello_response hello_env world0 "''deadline exceeded''"]
    returned_transcript_is_concatenation
      [of "[1]" hello_response fallback_env world0 "''deadline exceeded''"]
  by (simp add: example_defs concatenated_top_alternatives_def long_running_outcome_def)




text \<open>
  Claim C6, as stated: every successful synthesis request in file mode writes its audio to
  a file with a name of its own. \<^verbatim>\<open>generate_audio\<close> of \<^verbatim>\<open>test.py\<close> writes every audio to
  \<^verbatim>\<open>static/output.wav\<close>, the file that \<^verbatim>\<open>generate_text\<close> reads: a second request
  answers with the same path and replaces the audio of the first.
\<close>

theorem fixed_file_name_is_shared:
  "fst (generate_audio two_audio_env (Post (Some ''one'')) world0) =
     (AudioPathBody ''/static/output.wav'' ''one'', 200) \<and>
   files (snd (generate_audio two_audio_env (Post (Some ''one'')) world0)) ''static/output.wav'' =
     Some [1] \<and>
   fst (generate_audio two_audio_env (Post (Some ''two''))
          (snd (generate_audio two_audio_env (Post (Some ''one'')) world0))) =
     (AudioPathBody ''/static/output.wav'' ''two'', 200) \<and>
   files (snd (generate_audio two_audio_env (Post (Some ''two''))
          (snd (generate_audio two_audio_env (Post (Some ''one'')) world0)))) ''static/output.wav'' =
     Some [2]"
  by (simp add: flask_defs call_defs example_defs Let_def request_text_def)

text \<open>
  Claim C6, amended. In file mode every successful synthesis request writes the audio that
  the vendor returned to a file under \<^verbatim>\<open>static/\<close> and answers with the path of exactly
  that file (the file name after a slash) and the text of the request. In \<^verbatim>\<open>app.py\<close> the
  name carries the clock reading cut to whole seconds, so that requests at different whole
  seconds write different files; in \<^verbatim>\<open>test.py\<close> the name is \<^verbatim>\<open>static/output.wav\<close>.
\<close>

theorem file_mode_response:
  "(text_in \<noteq> [] \<and> synthesize_speech e (length (vendor_calls w)) text_in = Inr audio \<longrightarrow>
      fst (app_text_to_speech e text_in w) =
        Inr (AudioPathBody
               (''/'' @ ''static/output_'' @ str_int (py_int (time_time e (clock_reads w))) @ ''.wav'')
               text_in) \<and>
      files (snd (app_text_to_speech e text_in w)) =
        (files w)(''static/output_'' @ str_int (py_int (time_time e (clock_reads w))) @ ''.wav''
           \<mapsto> audio)) \<and>
   (py_int t \<noteq> py_int t' \<longrightarrow>
      ''static/output_'' @ str_int (py_int t) @ ''.wav'' \<noteq>
      ''static/output_'' @ str_int (py_int t') @ ''.wav'') \<and>
   (request_text request \<noteq> [] \<and> tts_client_ctor e = None \<and>
    synthesize_speech e (length (vendor_calls w)) (request_text request) = Inr audio' \<longrightarrow>
      fst (generate_audio e request w) =
        (AudioPathBody (''/'' @ ''static/output.wav'') (request_text request), 200) \<and>
      files (snd (generate_audio e request w)) = (files w)(''static/output.wav'' \<mapsto> audio'))"
  using app_text_to_speech_ok(1,2) [of text_in e w audio]
    app_audio_filename_inj [of "py_int t" "py_int t'"]
    generate_audio_ok(1,2) [of request e w audio']
  by auto

theorem file_mode_response_witness:
  "fst (app_text_to_speech hello_env ''Hello'' world0) =
     Inr (AudioPathBody ''/static/output_100.wav'' ''Hello'') \<and>
   files (snd (app_text_to_speech hello_env ''Hello'' world0)) ''static/output_100.wav'' =
     Some [1, 2, 3] \<and>
   py_int 100 \<noteq> py_int 101 \<and>
   ''static/output_'' @ str_int (py_int 100) @ ''.wav'' \<noteq>
     ''static/output_'' @ str_int (py_int 101) @ ''.wav'' \<and>
   fst (generate_audio hello_env (Post (Some ''Hello'')) world0) =
     (AudioPathBody ''/static/output.wav'' ''Hello'', 200) \<and>
   files (snd (generate_audio hello_env (Post (Some ''Hello'')) world0)) ''static/output.wav'' =
     Some [1, 2, 3]"
  using file_mode_response
    [of "''Hello''" hello_env world0 "[1, 2, 3]" 100 101 "Post (Some ''Hello'')" "[1, 2, 3]"]
  by (simp add: example_defs request_text_def py_int_def str_int_100)

text \<open>
  In \<^verbatim>\<open>app.py\<close> two requests within one second get one file name as well: the clock
  readings 100 and 100.5 both give \<^verbatim>\<open>static/output_100.wav\<close>.
\<close>

lemma same_second_requests_share_file:
  "fst (app_text_to_speech two_audio_env ''one'' world0) =
     Inr (AudioPathBody ''/static/output_100.wav'' ''one'') \<and>
   files (snd (app_text_to_speech two_audio_env ''one'' world0)) ''static/output_100.wav'' =
     Some [1] \<and>
   fst (app_text_to_speech two_audio_env ''two''
          (snd (app_text_to_speech two_audio_env ''one'' world0))) =
     Inr (AudioPathBody ''/static/output_100.wav'' ''two'') \<and>
   files (snd (app_text_to_speech two_audio_env ''two''
          (snd (app_text_to_speech two_audio_env ''one'' world0)))) ''static/output_100.wav'' =
     Some [2]"
  by (simp add: app_defs call_defs example_defs Let_def py_int_def str_int_100)

text \<open>
  Claim C7. In streaming mode no request writes a file, and every successful synthesis
  request is answered with a streaming response of media type \<^verbatim>\<open>audio/wav\<close>, with a
  \<^verbatim>\<open>Content-Disposition\<close> header, over the chunks of the audio that the vendor returned:
  put end to end they are that audio, every chunk but the last has exactly 4096 bytes, and
  the last has between 1 and 4096.
\<close>

theorem streaming_mode_response:
  "files (snd (main_text_to_speech e text_in w)) = files w \<and>
   (text_in \<noteq> [] \<and> synthesize_speech e (length (vendor_calls w)) text_in = Inr audio \<longrightarrow>
      fst (main_text_to_speech e text_in w) =
        Inr (StreamingResponse (audio_stream_generator audio) ''audio/wav''
               [(''Content-Disposition'', ''inline; filename=synthesized_audio.wav'')]) \<and>
      concat (audio_stream_generator audio) = audio \<and>
      (\<forall>c \<in> set (butlast (audio_stream_generator audio)). length c = 4096) \<and>
      (\<forall>c \<in> set (audio_stream_generator audio). 0 < length c \<and> length c \<le> 4096))"
  using main_text_to_speech_files [of e text_in w] main_text_to_speech_ok [of text_in e w audio]
    concat_chunks [of audio] chunks_full [of _ audio] chunks_nonempty [of _ audio]
    chunks_le [of _ audio]
  by auto

theorem streaming_mode_response_witness:
  "fst (main_text_to_speech long_audio_env ''Hello'' world0) =
     Inr (StreamingResponse [replicate 4096 0, [7]] ''audio/wav''
            [(''Content-Disposition'', ''inline; filename=synthesized_audio.wav'')]) \<and>
   files (snd (main_text_to_speech long_audio_env ''Hello'' world0)) ''static/output.wav'' = None \<and>
   replicate 4096 0 \<in> set (butlast (audio_stream_generator (replicate 4096 0 @ [7]))) \<and>
   [7] \<in> set (audio_stream_generator (replicate 4096 0 @ [7]))"
  using streaming_mode_response [of long_audio_env "''Hello''" world0 "replicate 4096 0 @ [7]"]
  by (simp add: example_defs audio_stream_generator_Cons audio_stream_generator_Nil)

text \<open>
  Claim C8, as stated: every error of a vendor call is translated into a server-error
  response. In \<^verbatim>\<open>app.py\<close> the error of the synchronous recognition call is answered by
  the long-running call, and when that succeeds the response is the transcript, with status
  200.
\<close>

theorem recovered_error_is_not_reported:
  "recognize fallback_env (length (vendor_calls world0)) [1] = Inl ''deadline exceeded'' \<and>
   fst (app_speech_to_text fallback_env [1] world0) =
     Inr (TranscriptTimeBody ''hello world'' (1 / 2)) \<and>
   status_code (fst (app_speech_to_text fallback_env [1] world0)) \<noteq> Some 500"
  by (simp add: app_defs call_defs example_defs extract_transcript_eq long_running_outcome_def
      concatenated_top_alternatives_def transcript_body_def status_code_def py_round2_half)

text \<open>
  Claim C8, amended. No exception other than an \<^verbatim>\<open>HTTPException\<close> leaves a FastAPI
  handler (the Flask views return a response in every case). An error of a vendor call that
  ends the request is answered with status 500 and a detail that carries its message, and
  nothing else is returned: the error of the synthesize call in the three variants, the error
  of the synchronous recognition call in \<^verbatim>\<open>main.py\<close>, the error of the long-running call
  after a failed synchronous call in \<^verbatim>\<open>app.py\<close>, and the error of the third failed attempt
  in \<^verbatim>\<open>test.py\<close>. No file is written on any of these paths: a failed synthesis writes
  none, and the streaming synthesis of \<^verbatim>\<open>main.py\<close> and the three transcription handlers
  never write one. An error that the fallback or the retry takes over is not reported when
  the later call succeeds: after a failed synchronous call and a successful long-running
  one \<^verbatim>\<open>app.py\<close> answers with status 200 and the transcript body, and \<^verbatim>\<open>generate_text\<close>
  of \<^verbatim>\<open>test.py\<close> answers with status 200 and the transcript when the first attempt
  succeeds, when the second succeeds after one failure, and when the third succeeds after
  two.
\<close>

theorem vendor_errors_become_server_errors:
  "(status_code (fst (app_text_to_speech e text_in w)) \<noteq> None \<and>
    status_code (fst (main_text_to_speech e text_in w)) \<noteq> None \<and>
    status_code (fst (app_speech_to_text e audio w)) \<noteq> None \<and>
    status_code (fst (main_speech_to_text e audio w)) \<noteq> None) \<and>
   (text_in \<noteq> [] \<and> synthesize_speech e (length (vendor_calls w)) text_in = Inl m \<longrightarrow>
      fst (app_text_to_speech e text_in w) = Inl (HTTPException 500 m) \<and>
      files (snd (app_text_to_speech e text_in w)) = files w \<and>
      fst (main_text_to_speech e text_in w) =
        Inl (HTTPException 500 (''Failed to synthesize speech: '' @ m))) \<and>
   (request_text request \<noteq> [] \<and> tts_client_ctor e = None \<and>
    synthesize_speech e (length (vendor_calls w)) (request_text request) = Inl m \<longrightarrow>
      fst (generate_audio e request w) = (ErrorBody m, 500) \<and>
      files (snd (generate_audio e request w)) = files w) \<and>
   (audio \<noteq> [] \<and> recognize e (length (vendor_calls w)) audio = Inl m \<longrightarrow>
      fst (main_speech_to_text e audio w) = Inl (HTTPException 500 (stt_failed_prefix @ m)) \<and>
      (long_running_outcome e (Suc (length (vendor_calls w))) audio = Inl m' \<longrightarrow>
         fst (app_speech_to_text e audio w) = Inl (HTTPException 500 m'))) \<and>
   (files w ''static/output.wav'' = Some saved \<and> stt_client_ctor e = None \<and>
    long_running_outcome e (length (vendor_calls w)) saved = Inl m0 \<and>
    long_running_outcome e (length (vendor_calls w) + 1) saved = Inl m1 \<and>
    long_running_outcome e (length (vendor_calls w) + 2) saved = Inl m2 \<longrightarrow>
      fst (generate_text e w) = (ErrorBody m2, 500)) \<and>
   (files (snd (main_text_to_speech e text_in w)) = files w \<and>
    files (snd (app_speech_to_text e audio w)) = files w \<and>
    files (snd (main_speech_to_text e audio w)) = files w \<and>
    files (snd (generate_text e w)) = files w) \<and>
   (audio \<noteq> [] \<and> recognize e (length (vendor_calls w)) audio = Inl m \<and>
    long_running_outcome e (Suc (length (vendor_calls w))) audio = Inr response \<longrightarrow>
      fst (app_speech_to_text e audio w) =
        Inr (transcript_body (concatenated_top_alternatives response)
               (time_time e (clock_reads w)) (time_time e (Suc (clock_reads w)))) \<and>
      status_code (fst (app_speech_to_text e audio w)) = Some 200) \<and>
   (files w ''static/output.wav'' = Some saved \<and> stt_client_ctor e = None \<longrightarrow>
      (long_running_outcome e (length (vendor_calls w)) saved = Inr response \<longrightarrow>
         fst (generate_text e w) =
           (TranscriptBody (concatenated_top_alternatives response), 200)) \<and>
      (long_running_outcome e (length (vendor_calls w)) saved = Inl m0 \<and>
       long_running_outcome e (length (vendor_calls w) + 1) saved = Inr response \<longrightarrow>
         fst (generate_text e w) =
           (TranscriptBody (concatenated_top_alternatives response), 200)) \<and>
      (long_running_outcome e (length (vendor_calls w)) saved = Inl m0 \<and>
       long_running_outcome e (length (vendor_calls w) + 1) saved = Inl m1 \<and>
       long_running_outcome e (length (vendor_calls w) + 2) saved = Inr response \<longrightarrow>
         fst (generate_text e w) =
           (TranscriptBody (concatenated_top_alternatives response), 200)))"
proof -
  have answers:
    "status_code (fst (app_text_to_speech e text_in w)) \<noteq> None \<and>
     status_code (fst (main_text_to_speech e text_in w)) \<noteq> None \<and>
     status_code (fst (app_speech_to_text e audio w)) \<noteq> None \<and>
     status_code (fst (main_speech_to_text e audio w)) \<noteq> None"
    using fastapi_handlers_answer(1,2) [of e text_in w] fastapi_handlers_answer(3,4) [of e audio w]
    by simp
  have synth:
    "text_in \<noteq> [] \<and> synthesize_speech e (length (vendor_calls w)) text_in = Inl m \<longrightarrow>
      fst (app_text_to_speech e text_in w) = Inl (HTTPException 500 m) \<and>
      files (snd (app_text_to_speech e text_in w)) = files w \<and>
      fst (main_text_to_speech e text_in w) =
        Inl (HTTPException 500 (''Failed to synthesize speech: '' @ m))"
    using app_text_to_speech_error [of text_in e w m] main_text_to_speech_error [of text_in e w m]
    by simp
  have flask_synth:
    "request_text request \<noteq> [] \<and> tts_client_ctor e = None \<and>
     synthesize_speech e (length (vendor_calls w)) (request_text request) = Inl m \<longrightarrow>
      fst (generate_audio e request w) = (ErrorBody m, 500) \<and>
      files (snd (generate_audio e request w)) = files w"
    using generate_audio_error [of request e w m] by simp
  have recog:
    "audio \<noteq> [] \<and> recognize e (length (vendor_calls w)) audio = Inl m \<longrightarrow>
      fst (main_speech_to_text e audio w) = Inl (HTTPException 500 (stt_failed_prefix @ m)) \<and>
      (long_running_outcome e (Suc (length (vendor_calls w))) audio = Inl m' \<longrightarrow>
         fst (app_speech_to_text e audio w) = Inl (HTTPException 500 m'))"
    using main_speech_to_text_error(1) [of audio e w m]
      app_speech_to_text_sync_error(2) [of audio e w m m']
    by simp
  have three:
    "files w ''static/output.wav'' = Some saved \<and> stt_client_ctor e = None \<and>
     long_running_outcome e (length (vendor_calls w)) saved = Inl m0 \<and>
     long_running_outcome e (length (vendor_calls w) + 1) saved = Inl m1 \<and>
     long_running_outcome e (length (vendor_calls w) + 2) saved = Inl m2 \<longrightarrow>
      fst (generate_text e w) = (ErrorBody m2, 500)"
    using generate_text_all_fail(1) [of w saved e m0 m1 m2] by simp
  have no_file:
    "files (snd (main_text_to_speech e text_in w)) = files w \<and>
     files (snd (app_speech_to_text e audio w)) = files w \<and>
     files (snd (main_speech_to_text e audio w)) = files w \<and>
     files (snd (generate_text e w)) = files w"
    using main_text_to_speech_files [of e text_in w] transcription_writes_no_file [of e audio w]
      generate_text_files [of e w]
    by simp
  have fallback:
    "audio \<noteq> [] \<and> recognize e (length (vendor_calls w)) audio = Inl m \<and>
     long_running_outcome e (Suc (length (vendor_calls w))) audio = Inr response \<longrightarrow>
      fst (app_speech_to_text e audio w) =
        Inr (transcript_body (concatenated_top_alternatives response)
               (time_time e (clock_reads w)) (time_time e (Suc (clock_reads w)))) \<and>
      status_code (fst (app_speech_to_text e audio w)) = Some 200"
    using app_speech_to_text_sync_error(3) [of audio e w m response]
    by (simp add: status_code_body)
  have retry:
    "files w ''static/output.wav'' = Some saved \<and> stt_client_ctor e = None \<longrightarrow>
      (long_running_outcome e (length (vendor_calls w)) saved = Inr response \<longrightarrow>
         fst (generate_text e w) =
           (TranscriptBody (concatenated_top_alternatives response), 200)) \<and>
      (long_running_outcome e (length (vendor_calls w)) saved = Inl m0 \<and>
       long_running_outcome e (length (vendor_calls w) + 1) saved = Inr response \<longrightarrow>
         fst (generate_text e w) =
           (TranscriptBody (concatenated_top_alternatives response), 200)) \<and>
      (long_running_outcome e (length (vendor_calls w)) saved = Inl m0 \<and>
       long_running_outcome e (length (vendor_calls w) + 1) saved = Inl m1 \<and>
       long_running_outcome e (length (vendor_calls w) + 2) saved = Inr response \<longrightarrow>
         fst (generate_text e w) =
           (TranscriptBody (concatenated_top_alternatives response), 200))"
    using generate_text_recovers(1) [of w saved e response]
      generate_text_recovers(2) [of w saved e m0 response]
      generate_text_recovers(3) [of w saved e m0 m1 response]
    by simp
  show ?thesis
    by (rule conjI [OF answers conjI [OF synth conjI [OF flask_synth conjI [OF recog
          conjI [OF three conjI [OF no_file conjI [OF fallback retry]]]]]]])
qed

text \<open>
  Every call fails; the long-running call succeeds after the failed synchronous one; and an
  attempt of \<^verbatim>\<open>generate_text\<close> succeeds at once, after one failure, and after two.
\<close>

theorem vendor_errors_become_server_errors_witness:
  "fst (app_text_to_speech failing_env ''Hello'' saved_world) =
     Inl (HTTPException 500 ''quota exceeded'') \<and>
   fst (main_text_to_speech failing_env ''Hello'' saved_world) =
     Inl (HTTPException 500 ''Failed to synthesize speech: quota exceeded'') \<and>
   fst (generate_audio failing_env Get saved_world) = (ErrorBody ''quota exceeded'', 500) \<and>
   fst (main_speech_to_text failing_env [1] saved_world) =
     Inl (HTTPException 500 (stt_failed_prefix @ ''deadline exceeded'')) \<and>
   fst (app_speech_to_text failing_env [1] saved_world) =
     Inl (HTTPException 500 ''unavailable'') \<and>
   fst (generate_text failing_env saved_world) = (ErrorBody ''still unavailable'', 500) \<and>
   files (snd (generate_text failing_env saved_world)) ''static/output.wav'' = Some [1] \<and>
   fst (app_speech_to_text fallback_env [1] saved_world) =
     Inr (TranscriptTimeBody ''hello world'' (1 / 2)) \<and>
   status_code (fst (app_speech_to_text fallback_env [1] saved_world)) = Some 200 \<and>
   fst (generate_text fallback_env saved_world) = (TranscriptBody ''hello world'', 200) \<and>
   fst (generate_text recovering_env called_world) = (TranscriptBody ''hello world'', 200) \<and>
   fst (generate_text recovering_env saved_world) = (TranscriptBody ''hello world'', 200)"
  using vendor_errors_become_server_errors
      [of failing_env "''Hello''" saved_world "[1]" "''quota exceeded''" Get "''unavailable''"
          "[1]" "''unavailable''" "''unavailable''" "''still unavailable''" hello_response]
    vendor_errors_become_server_errors
      [of failing_env "''Hello''" saved_world "[1]" "''deadline exceeded''" Get "''unavailable''"
          "[1]" "''unavailable''" "''unavailable''" "''still unavailable''" hello_response]
    vendor_errors_become_server_errors
      [of fallback_env "''Hello''" saved_world "[1]" "''deadline exceeded''" Get "''unavailable''"
          "[1]" "''unavailable''" "''unavailable''" "''still unavailable''" hello_response]
    vendor_errors_become_server_errors
      [of recovering_env "''Hello''" called_world "[1]" "''deadline exceeded''" Get
          "''unavailable''" "[1]" "''unavailable''" "''unavailable''" "''still unavailable''"
          hello_response]
    vendor_errors_become_server_errors
      [of recovering_env "''Hello''" saved_world "[1]" "''deadline exceeded''" Get
          "''unavailable''" "[1]" "''unavailable''" "''unavailable''" "''still unavailable''"
          hello_response]
  by (simp add: example_defs request_text_def long_running_outcome_def
      concatenated_top_alternatives_def transcript_body_def py_round2_half status_code_body)

text \<open>
  Claim C9. For every input buffer, the chunks that \<^verbatim>\<open>audio_stream_generator\<close> yields,
  put end to end, are the buffer itself; every chunk but the last has exactly 4096 bytes;
  no chunk is empty (and none is longer than 4096 bytes); an empty buffer yields no chunk.
\<close>

theorem audio_stream_generator_chunks:
  "concat (audio_stream_generator buffer) = buffer \<and>
   (\<forall>c \<in> set (butlast (audio_stream_generator buffer)). length c = 4096) \<and>
   (\<forall>c \<in> set (audio_stream_generator buffer). c \<noteq> [] \<and> length c \<le> 4096) \<and>
   audio_stream_generator [] = []"
  using concat_chunks chunks_full chunks_nonempty chunks_le audio_stream_generator_Nil
  by blast

theorem audio_stream_generator_chunks_witness:
  "audio_stream_generator (replicate 4096 0 @ [7]) = [replicate 4096 0, [7]] \<and>
   replicate 4096 0 \<in> set (butlast (audio_stream_generator (replicate 4096 0 @ [7]))) \<and>
   length (replicate 4096 (0 :: byte)) = 4096 \<and>
   concat (audio_stream_generator (replicate 4096 0 @ [7])) = replicate 4096 0 @ [7]"
  using audio_stream_generator_chunks [of "replicate 4096 0 @ [7]"]
  by (simp add: audio_stream_generator_Cons audio_stream_generator_Nil)

text \<open>
  Claim C10. The extraction of the transcript never fails, whatever the numbers of
  alternatives of the segments: the first alternative is read only under the test that the
  segment has one, so no \<open>IndexError\<close> arises. A segment without alternatives contributes
  nothing: the extraction is the same with it and without it.
\<close>

theorem extraction_skips_segments_without_alternatives:
  "(\<exists>ts. top_transcripts rs = Inr ts) \<and>
   (\<exists>t. extract_transcript response = Inr t) \<and>
   (alternatives r = [] \<longrightarrow> top_transcripts (xs @ r # ys) = top_transcripts (xs @ ys)) \<and>
   (alternatives r = [] \<longrightarrow>
      extract_transcript (response\<lparr>results := xs @ r # ys\<rparr>) =
      extract_transcript (response\<lparr>results := xs @ ys\<rparr>))"
  by (simp add: top_transcripts_eq extract_transcript_eq concatenated_top_alternatives_def)

theorem extraction_skips_segments_without_alternatives_witness:
  "alternatives \<lparr>alternatives = []\<rparr> = [] \<and>
   top_transcripts (results hello_response @ \<lparr>alternatives = []\<rparr> # results hello_response) =
     Inr [''hello '', ''world'', ''hello '', ''world''] \<and>
   top_transcripts (results hello_response @ results hello_response) =
     Inr [''hello '', ''world'', ''hello '', ''world''] \<and>
   extract_transcript \<lparr>results = [\<lparr>alternatives = []\<rparr>]\<rparr> = Inr []"
  using extraction_skips_segments_without_alternatives
    [of "results hello_response" hello_response "\<lparr>alternatives = []\<rparr>"
        "results hello_response" "results hello_response"]
  by (simp add: hello_response_def index0_def extract_transcript_def)

end
